theory Spec2Isabelle
  imports Complex_Main "HOL-Library.AList"
begin

section \<open>Python values, text and errors\<close>

text \<open>
  The two exceptions that \<^verbatim>\<open>progress_table.py\<close> can raise by itself: a failed
  \<^verbatim>\<open>assert\<close> and a true division by zero. The message of an assertion is not kept.
\<close>

datatype error = AssertionError | ZeroDivisionError

text \<open>
  Printed text is a list of glyphs: an ordinary character, or one of the box-drawing
  characters of the dataclass \<^verbatim>\<open>Boxes\<close> (one constructor per field).
\<close>

datatype glyph =
    Ch char
  | Box_horizontal | Box_vertical | Box_all
  | Box_full | Box_empty
  | Box_up_left | Box_up_right | Box_down_left | Box_down_right
  | Box_no_left | Box_no_right | Box_no_up | Box_no_down

type_synonym glyphs = "glyph list"

text \<open>
  A cell value: a Python \<^verbatim>\<open>str\<close>, a Python \<^verbatim>\<open>int\<close>, or any other object, which the
  table only ever observes through \<^verbatim>\<open>type(value).__name__\<close> and \<^verbatim>\<open>str(value)\<close>
  (the two strings carried by \<open>PObj\<close>).
\<close>

datatype pyval = PStr string | PInt int | PObj string string

fun type_name :: "pyval \<Rightarrow> string" where
  "type_name (PStr s) = ''str''"
| "type_name (PInt i) = ''int''"
| "type_name (PObj tn s) = tn"

fun digits :: "nat \<Rightarrow> string" where
  "digits n = (if n < 10 then [char_of (48 + n)]
               else digits (n div 10) @ [char_of (48 + n mod 10)])"

declare digits.simps [simp del]

definition str_int :: "int \<Rightarrow> string" where
  "str_int i = (if i < 0 then CHR ''-'' # digits (nat (- i)) else digits (nat i))"

fun py_str :: "pyval \<Rightarrow> string" where
  "py_str (PStr s) = s"
| "py_str (PInt i) = str_int i"
| "py_str (PObj tn s) = s"

text \<open>\<^verbatim>\<open>a / b\<close> on Python numbers, read as exact rationals.\<close>

definition py_div :: "rat \<Rightarrow> rat \<Rightarrow> error + rat" where
  "py_div a b = (if b = 0 then Inl ZeroDivisionError else Inr (a / b))"

text \<open>\<^verbatim>\<open>s[:width]\<close>: a negative bound counts from the end.\<close>

definition slice_to :: "int \<Rightarrow> 'a list \<Rightarrow> 'a list" where
  "slice_to w s = (if 0 \<le> w then take (nat w) s else take (length s - nat (- w)) s)"

text \<open>
  \<^verbatim>\<open>s.center(width)\<close>: the string itself when it is already wide enough, otherwise
  padded on both sides, the odd space going to the left when \<open>width\<close> is odd.
\<close>

definition str_center :: "int \<Rightarrow> 'a \<Rightarrow> 'a list \<Rightarrow> 'a list" where
  "str_center width fill s =
     (let marg = width - int (length s) in
      if marg \<le> 0 then s
      else let left = marg div 2 + (if odd marg \<and> odd width then 1 else 0)
           in replicate (nat left) fill @ s @ replicate (nat (marg - left)) fill)"

text \<open>\<^verbatim>\<open>sep.join(parts)\<close>.\<close>

fun join :: "'a list \<Rightarrow> 'a list list \<Rightarrow> 'a list" where
  "join sep [] = []"
| "join sep [x] = x"
| "join sep (x # y # ys) = x @ sep @ join sep (y # ys)"

definition RESET_ALL :: glyphs where
  "RESET_ALL = [Ch (CHR 0x1B), Ch CHR ''['', Ch CHR ''0'', Ch CHR ''m'']"

definition newline :: glyph where
  "newline = Ch (CHR 0x0A)"

definition carriage_return :: glyph where
  "carriage_return = Ch (CHR 0x0D)"

definition space :: glyph where
  "space = Ch CHR '' ''"

section \<open>The table\<close>

text \<open>
  The fields of \<^verbatim>\<open>ProgressTable\<close>. Every dictionary is an association list in
  insertion order with one entry per key; \<open>values_buf\<close> is the attribute
  \<^verbatim>\<open>self.values\<close> (the row buffer), and \<open>stdout\<close> is the text printed so far.
\<close>

record table =
  default_width :: int
  columns :: "string list"
  num_rows :: int
  widths :: "(string \<times> int) list"
  colors :: "(string \<times> string option) list"
  values_buf :: "(string \<times> pyval) list"
  progress_bar_fps :: rat
  header_printed :: bool
  custom_formatting :: "(string \<times> (pyval \<Rightarrow> pyval)) list"
  needs_line_ending :: bool
  finished_rows :: "(string \<times> pyval) list list"
  stdout :: glyphs

text \<open>\<^verbatim>\<open>ProgressTable.__init__\<close>\<close>

definition init ::
  "string list \<Rightarrow> int \<Rightarrow> rat \<Rightarrow> (string \<times> (pyval \<Rightarrow> pyval)) list \<Rightarrow> table" where
  "init cols default_column_width fps formatting =
     \<lparr> default_width = default_column_width,
       columns = cols,
       num_rows = 0,
       widths = [],
       colors = [],
       values_buf = [],
       progress_bar_fps = fps,
       header_printed = False,
       custom_formatting = formatting,
       needs_line_ending = False,
       finished_rows = [],
       stdout = [] \<rparr>"

text \<open>
  Reading a \<^verbatim>\<open>defaultdict\<close>: a missing key is inserted with the default and the
  default is returned.
\<close>

definition dd_get :: "'v \<Rightarrow> (string \<times> 'v) list \<Rightarrow> string \<Rightarrow> 'v \<times> (string \<times> 'v) list" where
  "dd_get dflt d k =
     (case map_of d k of
        Some v \<Rightarrow> (v, d)
      | None \<Rightarrow> (dflt, d @ [(k, dflt)]))"

text \<open>\<^verbatim>\<open>self.widths[col]\<close>, \<^verbatim>\<open>self.colors[col]\<close>, \<^verbatim>\<open>self.values[col]\<close>\<close>

definition get_width :: "string \<Rightarrow> table \<Rightarrow> int \<times> table" where
  "get_width col t =
     (let (w, d) = dd_get (default_width t) (widths t) col in (w, t\<lparr>widths := d\<rparr>))"

definition get_color :: "string \<Rightarrow> table \<Rightarrow> string option \<times> table" where
  "get_color col t =
     (let (c, d) = dd_get None (colors t) col in (c, t\<lparr>colors := d\<rparr>))"

definition get_value :: "string \<Rightarrow> table \<Rightarrow> pyval \<times> table" where
  "get_value col t =
     (let (v, d) = dd_get (PStr []) (values_buf t) col in (v, t\<lparr>values_buf := d\<rparr>))"

text \<open>\<^verbatim>\<open>print(..., end="")\<close> of an already assembled text.\<close>

definition print_out :: "glyphs \<Rightarrow> table \<Rightarrow> table" where
  "print_out s t = t\<lparr>stdout := stdout t @ s\<rparr>"

text \<open>\<^verbatim>\<open>ProgressTable.add_column\<close>\<close>

definition add_column ::
  "string \<Rightarrow> int option \<Rightarrow> string option \<Rightarrow> table \<Rightarrow> error option \<times> table" where
  "add_column name width color t =
     (if header_printed t then (Some AssertionError, t)
      else
        let t1 = t\<lparr>columns := columns t @ [name]\<rparr>;
            w = (case width of Some w \<Rightarrow> w | None \<Rightarrow> default_width t1);
            w = (if w < int (length name) then int (length name) else w);
            t2 = (case color of
                    Some c \<Rightarrow> t1\<lparr>colors := AList.update name (Some c) (colors t1)\<rparr>
                  | None \<Rightarrow> t1)
        in (None, t2\<lparr>widths := AList.update name w (widths t2)\<rparr>))"

text \<open>\<^verbatim>\<open>ProgressTable.bar\<close> and the three borders\<close>

fun bar_content :: "string list \<Rightarrow> table \<Rightarrow> glyphs list \<times> table" where
  "bar_content [] t = ([], t)"
| "bar_content (col # cols) t =
     (let (w, t1) = get_width col t;
          (rest, t2) = bar_content cols t1
      in (replicate (nat (w + 2)) Box_horizontal # rest, t2))"

definition bar :: "glyph \<Rightarrow> glyph \<Rightarrow> glyph \<Rightarrow> table \<Rightarrow> table" where
  "bar left center right t =
     (let (content, t1) = bar_content (columns t) t
      in print_out ([left] @ join [center] content @ [right]) t1)"

definition print_top_bar :: "table \<Rightarrow> table" where
  "print_top_bar = bar Box_down_right Box_no_up Box_down_left"

definition print_bottom_bar :: "table \<Rightarrow> table" where
  "print_bottom_bar = bar Box_up_right Box_no_down Box_up_left"

definition print_center_bar :: "table \<Rightarrow> table" where
  "print_center_bar = bar Box_no_left Box_all Box_no_right"

text \<open>\<^verbatim>\<open>ProgressTable.print_header\<close>\<close>

definition decorate :: "string option \<Rightarrow> glyphs \<Rightarrow> glyphs" where
  "decorate c v = (case c of Some c \<Rightarrow> map Ch c @ v @ RESET_ALL | None \<Rightarrow> v)"

fun header_content :: "string list \<Rightarrow> table \<Rightarrow> glyphs list \<times> table" where
  "header_content [] t = ([], t)"
| "header_content (col # cols) t =
     (let (width, t1) = get_width col t;
          v = str_center width space (slice_to width (map Ch col));
          (c, t2) = get_color col t1;
          v = decorate c v;
          (rest, t3) = header_content cols t2
      in (v # rest, t3))"

definition print_header :: "table \<Rightarrow> table" where
  "print_header t =
     (let t1 = print_out [newline] (print_top_bar t);
          (content, t2) = header_content (columns t1) t1;
          t3 = print_out ([Box_vertical, space] @ join [space, Box_vertical, space] content
                          @ [space, Box_vertical, newline]) t2;
          t4 = t3\<lparr>header_printed := True\<rparr>
      in print_out [newline] (print_center_bar t4))"

text \<open>\<^verbatim>\<open>ProgressTable.print_row\<close>\<close>

fun row_content :: "string list \<Rightarrow> table \<Rightarrow> glyphs list \<times> table" where
  "row_content [] t = ([], t)"
| "row_content (col # cols) t =
     (let (v, t1) = get_value col t;
          (width, t2) = get_width col t1;
          value_type = type_name v;
          v = (case map_of (custom_formatting t2) value_type of
                 Some f \<Rightarrow> f v
               | None \<Rightarrow> v);
          s = str_center width space (slice_to width (map Ch (py_str v)));
          (c, t3) = get_color col t2;
          s = decorate c s;
          (rest, t4) = row_content cols t3
      in (s # rest, t4))"

definition print_row :: "table \<Rightarrow> table" where
  "print_row t =
     (let t1 = (if \<not> header_printed t then print_header t else t) in
      if values_buf t1 = [] then t1
      else
        let t2 = t1\<lparr>needs_line_ending := True\<rparr>;
            t3 = print_out [carriage_return] t2;
            (content, t4) = row_content (columns t3) t3
        in print_out ([Box_vertical, space] @ join [space, Box_vertical, space] content
                      @ [space, Box_vertical]) t4)"

text \<open>\<^verbatim>\<open>ProgressTable.next_row\<close>\<close>

definition next_row :: "bool \<Rightarrow> table \<Rightarrow> table" where
  "next_row save t =
     (let t1 = (if needs_line_ending t
                then (print_out [newline] t)\<lparr>needs_line_ending := False\<rparr> else t);
          t2 = (if save \<and> values_buf t1 \<noteq> []
                then t1\<lparr>finished_rows := finished_rows t1 @ [values_buf t1],
                        num_rows := num_rows t1 + 1\<rparr>
                else t1)
      in t2\<lparr>values_buf := []\<rparr>)"

text \<open>\<^verbatim>\<open>ProgressTable.close\<close>\<close>

definition close :: "table \<Rightarrow> table" where
  "close t =
     (let t1 = print_row t;
          t2 = next_row True t1;
          t3 = print_bottom_bar t2;
          t4 = t3\<lparr>header_printed := False\<rparr>
      in print_out [newline] t4)"

text \<open>
  \<^verbatim>\<open>ProgressTable.print_progress_bar\<close>. \<open>available_width\<close> is the final value of
  \<^verbatim>\<open>tot_width\<close>, \<open>num_hashes\<close> the expression of the same name, with the division
  and the product taken in exact arithmetic (the source computes them in binary
  floating point, where the product can round up across an integer).
\<close>

definition available_width :: "glyphs \<Rightarrow> glyphs \<Rightarrow> table \<Rightarrow> int" where
  "available_width show_before show_after t =
     (let tot_width = sum_list (map snd (widths t)) + 3 * (int (length (widths t)) - 1) + 2
      in tot_width - int (length show_before) - int (length show_after))"

definition num_hashes :: "int \<Rightarrow> int \<Rightarrow> int \<Rightarrow> int" where
  "num_hashes i n tot_width = max \<lceil>rat_of_int i / rat_of_int n * rat_of_int tot_width\<rceil> 1"

definition print_progress_bar ::
  "int \<Rightarrow> int \<Rightarrow> glyphs \<Rightarrow> glyphs \<Rightarrow> table \<Rightarrow> error option \<times> table" where
  "print_progress_bar i n show_before show_after t =
     (let tot_width = available_width show_before show_after t in
      if n = 0 then (Some ZeroDivisionError, t)
      else
        let hashes = num_hashes i n tot_width;
            num_empty = tot_width - hashes
        in (None, print_out ([Box_vertical] @ show_before
                             @ replicate (nat hashes) Box_full
                             @ replicate (nat num_empty) Box_empty
                             @ show_after @ [Box_vertical]) t))"

text \<open>
  \<^verbatim>\<open>ProgressTable.to_list\<close>. Each finished row is a \<^verbatim>\<open>defaultdict\<close>, so reading a
  column it lacks stores the empty string in it: the rows are returned updated.
\<close>

fun row_list :: "string list \<Rightarrow> (string \<times> pyval) list \<Rightarrow> pyval list \<times> (string \<times> pyval) list" where
  "row_list [] row = ([], row)"
| "row_list (col # cols) row =
     (let (v, row1) = dd_get (PStr []) row col;
          (vs, row2) = row_list cols row1
      in (v # vs, row2))"

definition to_list :: "table \<Rightarrow> pyval list list \<times> table" where
  "to_list t =
     (let rs = map (row_list (columns t)) (finished_rows t)
      in (map fst rs, t\<lparr>finished_rows := map snd rs\<rparr>))"

text \<open>\<^verbatim>\<open>ProgressTable.display_custom\<close> and \<^verbatim>\<open>ProgressTable.display\<close>\<close>

fun stage_row :: "(string \<times> pyval) list \<Rightarrow> table \<Rightarrow> table" where
  "stage_row [] t = t"
| "stage_row ((key, v) # kvs) t =
     stage_row kvs (t\<lparr>values_buf := AList.update key v (values_buf t)\<rparr>)"

fun display_rows :: "pyval list list \<Rightarrow> table \<Rightarrow> error option \<times> table" where
  "display_rows [] t = (None, close t)"
| "display_rows (row # data) t =
     (if length row \<noteq> length (columns t) then (Some AssertionError, t)
      else display_rows data
             (next_row False (print_row (stage_row (zip (columns t) row) t))))"

definition display_custom :: "pyval list list \<Rightarrow> table \<Rightarrow> error option \<times> table" where
  "display_custom data t =
     display_rows data (if header_printed t then close t else t)"

definition display :: "table \<Rightarrow> error option \<times> table" where
  "display t =
     (let t1 = (if header_printed t then close t else t);
          (data, t2) = to_list t1
      in display_custom data t2)"

text \<open>\<^verbatim>\<open>ProgressTable.__setitem__\<close>\<close>

definition setitem :: "string \<Rightarrow> pyval \<Rightarrow> table \<Rightarrow> error option \<times> table" where
  "setitem key v t =
     (if key \<notin> set (columns t) then (Some AssertionError, t)
      else (None, print_row (t\<lparr>values_buf := AList.update key v (values_buf t)\<rparr>)))"

section \<open>Instrumented iteration\<close>

text \<open>
  \<^verbatim>\<open>ProgressTable.__call__\<close> is a generator. Its argument is an iterable that has
  \<^verbatim>\<open>__len__\<close> (\<open>Sized\<close>, a list) or has not (\<open>Unsized\<close>). The local variables
  of the generator are the record \<open>gen_state\<close>; \<open>t_last_printed = None\<close> is
  \<^verbatim>\<open>-float("inf")\<close>.

  The clock is a function \<open>clk\<close> from the number of the reading to the time read, and
  the state carries the number of the next reading: every \<^verbatim>\<open>time.time()\<close> reads
  \<open>clk k\<close> and moves to \<open>k + 1\<close>. The code of the caller that runs while the
  generator is suspended at \<^verbatim>\<open>yield element\<close> is \<open>body element\<close>, any function
  on the table. \<open>fmt\<close> is the conversion \<^verbatim>\<open>{iterations_per_sec: <.2f}\<close>.

  A run returns the exception that ended it (if any), the elements yielded in order,
  the arguments of every progress-bar redraw (index, elapsed-time samples at that
  moment, throughput shown), the table and the number of the next clock reading.
\<close>

datatype 'e iterable = Sized "'e list" | Unsized "'e list"

record gen_state =
  time_measurements :: "rat list"
  t_last_printed :: "rat option"
  t_last_step :: rat

record 'e run =
  raised :: "error option"
  yielded :: "'e list"
  redraws :: "(int \<times> rat list \<times> rat) list"
  final_table :: table
  next_tick :: nat

text \<open>\<^verbatim>\<open>idx / s if s > 0 else 0.\<close> with \<^verbatim>\<open>s = sum(time_measurements)\<close>\<close>

definition iterations_per_sec :: "int \<Rightarrow> rat list \<Rightarrow> error + rat" where
  "iterations_per_sec idx tm =
     (let s = sum_list tm in if s > 0 then py_div (rat_of_int idx) s else Inr 0)"

text \<open>The body of \<^verbatim>\<open>if time.time() - t_last_printed > 1 / self.progress_bar_fps:\<close>\<close>

definition redraw ::
  "(rat \<Rightarrow> string) \<Rightarrow> (nat \<Rightarrow> rat) \<Rightarrow> int \<Rightarrow> int \<Rightarrow> gen_state \<Rightarrow> nat \<Rightarrow> table \<Rightarrow>
   error option \<times> (int \<times> rat list \<times> rat) list \<times> gen_state \<times> nat \<times> table" where
  "redraw fmt clk idx len g k t =
     (let t1 = print_out [carriage_return] t in
      case iterations_per_sec idx (time_measurements g) of
        Inl e \<Rightarrow> (Some e, [], g, k, t1)
      | Inr ips \<Rightarrow>
          let label = map Ch ('' ['' @ fmt ips @ '' it/s] '');
              (e, t2) = print_progress_bar idx len label [space] t1
          in (case e of
                Some e \<Rightarrow> (Some e, [(idx, time_measurements g, ips)], g, k, t2)
              | None \<Rightarrow> (None, [(idx, time_measurements g, ips)],
                         g\<lparr>t_last_printed := Some (clk k)\<rparr>, k + 1, t2)))"

text \<open>\<^verbatim>\<open>time.time() - t_last_printed > period\<close>\<close>

definition due :: "rat \<Rightarrow> rat option \<Rightarrow> rat \<Rightarrow> bool" where
  "due now prev period = (case prev of None \<Rightarrow> True | Some tp \<Rightarrow> now - tp > period)"

text \<open>The \<^verbatim>\<open>for idx, element in enumerate(iterator)\<close> loop and the final redraw.\<close>

fun call_loop ::
  "(rat \<Rightarrow> string) \<Rightarrow> (nat \<Rightarrow> rat) \<Rightarrow> ('e \<Rightarrow> table \<Rightarrow> table) \<Rightarrow> int \<Rightarrow> int \<Rightarrow> 'e list \<Rightarrow>
   gen_state \<Rightarrow> nat \<Rightarrow> table \<Rightarrow> 'e run" where
  "call_loop fmt clk body len idx [] g k t =
     \<lparr>raised = None, yielded = [], redraws = [], final_table = print_row t, next_tick = k\<rparr>"
| "call_loop fmt clk body len idx (element # rest) g k t =
     (let now = clk k in
      case py_div 1 (progress_bar_fps t) of
        Inl e \<Rightarrow>
          \<lparr>raised = Some e, yielded = [], redraws = [], final_table = t, next_tick = k + 1\<rparr>
      | Inr period \<Rightarrow>
          let (e, rd, g1, k1, t1) =
                (if due now (t_last_printed g) period
                 then redraw fmt clk idx len g (k + 1) t
                 else (None, [], g, k + 1, t))
          in (case e of
                Some e \<Rightarrow>
                  \<lparr>raised = Some e, yielded = [], redraws = rd, final_table = t1, next_tick = k1\<rparr>
              | None \<Rightarrow>
                  let t2 = body element t1;
                      g2 = g1\<lparr>time_measurements :=
                                time_measurements g1 @ [clk k1 - t_last_step g1],
                              t_last_step := clk (k1 + 1)\<rparr>;
                      r = call_loop fmt clk body len (idx + 1) rest g2 (k1 + 2) t2
                  in r\<lparr>yielded := element # yielded r, redraws := rd @ redraws r\<rparr>))"

definition call ::
  "(rat \<Rightarrow> string) \<Rightarrow> (nat \<Rightarrow> rat) \<Rightarrow> ('e \<Rightarrow> table \<Rightarrow> table) \<Rightarrow> 'e iterable \<Rightarrow> nat \<Rightarrow> table \<Rightarrow>
   'e run" where
  "call fmt clk body iterator k t =
     (let t1 = (if \<not> header_printed t then print_header t else t) in
      case iterator of
        Unsized xs \<Rightarrow>
          \<lparr>raised = Some AssertionError, yielded = [], redraws = [], final_table = t1,
           next_tick = k\<rparr>
      | Sized xs \<Rightarrow>
          call_loop fmt clk body (int (length xs)) 0 xs
            \<lparr>time_measurements = [], t_last_printed = None, t_last_step = clk k\<rparr> (k + 1) t1)"

section \<open>Sequences of operations\<close>

text \<open>
  One call of a method of the table by its user. An exception ends the call and leaves
  the table as it was at that moment; the user may go on with the next call.
\<close>

datatype op =
    AddColumn string "int option" "string option"
  | SetItem string pyval
  | NextRow bool
  | Close
  | PrintProgressBar int int glyphs glyphs
  | ToList
  | DisplayCustom "pyval list list"
  | Display
  | Iterate "rat \<Rightarrow> string" "nat \<Rightarrow> rat" "nat \<Rightarrow> table \<Rightarrow> table" "nat iterable"

fun exec_op :: "op \<Rightarrow> table \<Rightarrow> table" where
  "exec_op (AddColumn name width color) t = snd (add_column name width color t)"
| "exec_op (SetItem key v) t = snd (setitem key v t)"
| "exec_op (NextRow save) t = next_row save t"
| "exec_op Close t = close t"
| "exec_op (PrintProgressBar i n show_before show_after) t =
     snd (print_progress_bar i n show_before show_after t)"
| "exec_op ToList t = snd (to_list t)"
| "exec_op (DisplayCustom data) t = snd (display_custom data t)"
| "exec_op Display t = snd (display t)"
| "exec_op (Iterate fmt clk body iterator) t = final_table (call fmt clk body iterator 0 t)"

fun exec_ops :: "op list \<Rightarrow> table \<Rightarrow> table" where
  "exec_ops [] t = t"
| "exec_ops (x # xs) t = exec_ops xs (exec_op x t)"

text \<open>
  \<open>declares_fresh ops t\<close>: run from \<open>t\<close>, no \<^verbatim>\<open>add_column\<close> of \<open>ops\<close> names a
  column that is declared at that moment, and no loop body changes the list of columns.
\<close>

fun declares_fresh :: "op list \<Rightarrow> table \<Rightarrow> bool" where
  "declares_fresh [] t = True"
| "declares_fresh (AddColumn name width color # xs) t =
     (name \<notin> set (columns t) \<and> declares_fresh xs (exec_op (AddColumn name width color) t))"
| "declares_fresh (Iterate fmt clk body iterator # xs) t =
     ((\<forall>x u. columns (body x u) = columns u)
      \<and> declares_fresh xs (exec_op (Iterate fmt clk body iterator) t))"
| "declares_fresh (x # xs) t = declares_fresh xs (exec_op x t)"

section \<open>Concrete collaborators for worked examples\<close>




section \<open>Operations that leave an open header open\<close>


section \<open>What each operation leaves unchanged\<close>

text \<open>
  The printing functions read widths, colours and values through \<open>dd_get\<close>, so they
  may extend those three dictionaries; every other field is as the lemmas below say.
\<close>

lemma get_width_frame [simp]:
  "columns (snd (get_width col t)) = columns t"
  "header_printed (snd (get_width col t)) = header_printed t"
  "values_buf (snd (get_width col t)) = values_buf t"
  "finished_rows (snd (get_width col t)) = finished_rows t"
  "num_rows (snd (get_width col t)) = num_rows t"
  "progress_bar_fps (snd (get_width col t)) = progress_bar_fps t"
  "needs_line_ending (snd (get_width col t)) = needs_line_ending t"
  "default_width (snd (get_width col t)) = default_width t"
  "custom_formatting (snd (get_width col t)) = custom_formatting t"
  by (simp_all add: get_width_def split: prod.splits)

lemma get_color_frame [simp]:
  "columns (snd (get_color col t)) = columns t"
  "header_printed (snd (get_color col t)) = header_printed t"
  "values_buf (snd (get_color col t)) = values_buf t"
  "finished_rows (snd (get_color col t)) = finished_rows t"
  "num_rows (snd (get_color col t)) = num_rows t"
  "progress_bar_fps (snd (get_color col t)) = progress_bar_fps t"
  "needs_line_ending (snd (get_color col t)) = needs_line_ending t"
  "default_width (snd (get_color col t)) = default_width t"
  "custom_formatting (snd (get_color col t)) = custom_formatting t"
  by (simp_all add: get_color_def split: prod.splits)

lemma get_value_frame [simp]:
  "columns (snd (get_value col t)) = columns t"
  "header_printed (snd (get_value col t)) = header_printed t"
  "finished_rows (snd (get_value col t)) = finished_rows t"
  "num_rows (snd (get_value col t)) = num_rows t"
  "progress_bar_fps (snd (get_value col t)) = progress_bar_fps t"
  "needs_line_ending (snd (get_value col t)) = needs_line_ending t"
  "default_width (snd (get_value col t)) = default_width t"
  "custom_formatting (snd (get_value col t)) = custom_formatting t"
  by (simp_all add: get_value_def split: prod.splits)

lemma print_out_frame [simp]:
  "columns (print_out s t) = columns t"
  "header_printed (print_out s t) = header_printed t"
  "values_buf (print_out s t) = values_buf t"
  "finished_rows (print_out s t) = finished_rows t"
  "num_rows (print_out s t) = num_rows t"
  "progress_bar_fps (print_out s t) = progress_bar_fps t"
  "needs_line_ending (print_out s t) = needs_line_ending t"
  "default_width (print_out s t) = default_width t"
  "custom_formatting (print_out s t) = custom_formatting t"
  "widths (print_out s t) = widths t"
  "colors (print_out s t) = colors t"
  "stdout (print_out s t) = stdout t @ s"
  by (simp_all add: print_out_def)

lemma bar_content_frame [simp]:
  "columns (snd (bar_content cols t)) = columns t"
  "header_printed (snd (bar_content cols t)) = header_printed t"
  "values_buf (snd (bar_content cols t)) = values_buf t"
  "finished_rows (snd (bar_content cols t)) = finished_rows t"
  "num_rows (snd (bar_content cols t)) = num_rows t"
  "progress_bar_fps (snd (bar_content cols t)) = progress_bar_fps t"
  "needs_line_ending (snd (bar_content cols t)) = needs_line_ending t"
  "default_width (snd (bar_content cols t)) = default_width t"
  "custom_formatting (snd (bar_content cols t)) = custom_formatting t"
  by (induction cols arbitrary: t; simp add: case_prod_beta Let_def)+

lemma bar_frame [simp]:
  "columns (bar l c r t) = columns t"
  "header_printed (bar l c r t) = header_printed t"
  "values_buf (bar l c r t) = values_buf t"
  "finished_rows (bar l c r t) = finished_rows t"
  "num_rows (bar l c r t) = num_rows t"
  "progress_bar_fps (bar l c r t) = progress_bar_fps t"
  "needs_line_ending (bar l c r t) = needs_line_ending t"
  "default_width (bar l c r t) = default_width t"
  "custom_formatting (bar l c r t) = custom_formatting t"
  by (simp_all add: bar_def case_prod_beta)

lemma header_content_frame [simp]:
  "columns (snd (header_content cols t)) = columns t"
  "header_printed (snd (header_content cols t)) = header_printed t"
  "values_buf (snd (header_content cols t)) = values_buf t"
  "finished_rows (snd (header_content cols t)) = finished_rows t"
  "num_rows (snd (header_content cols t)) = num_rows t"
  "progress_bar_fps (snd (header_content cols t)) = progress_bar_fps t"
  "needs_line_ending (snd (header_content cols t)) = needs_line_ending t"
  "default_width (snd (header_content cols t)) = default_width t"
  "custom_formatting (snd (header_content cols t)) = custom_formatting t"
  by (induction cols arbitrary: t; simp add: case_prod_beta Let_def)+

lemma print_header_frame [simp]:
  "columns (print_header t) = columns t"
  "header_printed (print_header t) = True"
  "values_buf (print_header t) = values_buf t"
  "finished_rows (print_header t) = finished_rows t"
  "num_rows (print_header t) = num_rows t"
  "progress_bar_fps (print_header t) = progress_bar_fps t"
  "needs_line_ending (print_header t) = needs_line_ending t"
  "default_width (print_header t) = default_width t"
  "custom_formatting (print_header t) = custom_formatting t"
  by (simp_all add: print_header_def print_top_bar_def print_center_bar_def case_prod_beta Let_def)

lemma row_content_frame [simp]:
  "columns (snd (row_content cols t)) = columns t"
  "header_printed (snd (row_content cols t)) = header_printed t"
  "finished_rows (snd (row_content cols t)) = finished_rows t"
  "num_rows (snd (row_content cols t)) = num_rows t"
  "progress_bar_fps (snd (row_content cols t)) = progress_bar_fps t"
  "needs_line_ending (snd (row_content cols t)) = needs_line_ending t"
  "default_width (snd (row_content cols t)) = default_width t"
  "custom_formatting (snd (row_content cols t)) = custom_formatting t"
  by (induction cols arbitrary: t; simp add: case_prod_beta Let_def)+

lemma print_row_frame [simp]:
  "columns (print_row t) = columns t"
  "header_printed (print_row t) = True"
  "finished_rows (print_row t) = finished_rows t"
  "num_rows (print_row t) = num_rows t"
  "progress_bar_fps (print_row t) = progress_bar_fps t"
  "default_width (print_row t) = default_width t"
  "custom_formatting (print_row t) = custom_formatting t"
  by (auto simp add: print_row_def case_prod_beta Let_def)

lemma next_row_frame [simp]:
  "columns (next_row save t) = columns t"
  "header_printed (next_row save t) = header_printed t"
  "values_buf (next_row save t) = []"
  "progress_bar_fps (next_row save t) = progress_bar_fps t"
  "default_width (next_row save t) = default_width t"
  "custom_formatting (next_row save t) = custom_formatting t"
  "needs_line_ending (next_row save t) = False"
  by (simp_all add: next_row_def Let_def)

lemma close_frame [simp]:
  "columns (close t) = columns t"
  "header_printed (close t) = False"
  "values_buf (close t) = []"
  "progress_bar_fps (close t) = progress_bar_fps t"
  "default_width (close t) = default_width t"
  "custom_formatting (close t) = custom_formatting t"
  by (simp_all add: close_def print_bottom_bar_def Let_def)

lemma print_progress_bar_frame [simp]:
  "columns (snd (print_progress_bar i n sb sa t)) = columns t"
  "header_printed (snd (print_progress_bar i n sb sa t)) = header_printed t"
  "values_buf (snd (print_progress_bar i n sb sa t)) = values_buf t"
  "finished_rows (snd (print_progress_bar i n sb sa t)) = finished_rows t"
  "num_rows (snd (print_progress_bar i n sb sa t)) = num_rows t"
  "progress_bar_fps (snd (print_progress_bar i n sb sa t)) = progress_bar_fps t"
  by (simp_all add: print_progress_bar_def Let_def)

lemma to_list_frame [simp]:
  "columns (snd (to_list t)) = columns t"
  "header_printed (snd (to_list t)) = header_printed t"
  "values_buf (snd (to_list t)) = values_buf t"
  "num_rows (snd (to_list t)) = num_rows t"
  "progress_bar_fps (snd (to_list t)) = progress_bar_fps t"
  by (simp_all add: to_list_def Let_def)

lemma stage_row_frame [simp]:
  "columns (stage_row kvs t) = columns t"
  "header_printed (stage_row kvs t) = header_printed t"
  "finished_rows (stage_row kvs t) = finished_rows t"
  "num_rows (stage_row kvs t) = num_rows t"
  "progress_bar_fps (stage_row kvs t) = progress_bar_fps t"
  by (induction kvs t rule: stage_row.induct; simp)+

lemma display_rows_columns [simp]:
  "columns (snd (display_rows data t)) = columns t"
  by (induction data t rule: display_rows.induct) simp_all

lemma display_custom_columns [simp]:
  "columns (snd (display_custom data t)) = columns t"
  by (simp add: display_custom_def)

lemma display_columns [simp]:
  "columns (snd (display t)) = columns t"
  by (simp add: display_def Let_def case_prod_beta)

lemma setitem_columns [simp]:
  "columns (snd (setitem key v t)) = columns t"
  by (simp add: setitem_def)

section \<open>Auxiliary facts about the operations\<close>

lemma add_column_frozen [simp]:
  "header_printed t \<Longrightarrow> add_column name width color t = (Some AssertionError, t)"
  by (simp add: add_column_def)




text \<open>The path through \<^verbatim>\<open>add_column\<close> does keep the width at or above the name's length.\<close>

lemma add_column_width_ge_name:
  "\<not> header_printed t \<Longrightarrow>
     int (length name) \<le> fst (get_width name (snd (add_column name width color t)))"
  by (simp add: add_column_def get_width_def dd_get_def Let_def update_conv'
           split: option.splits)





lemma dd_get_again:
  "fst (dd_get d (snd (dd_get d row c)) col) = fst (dd_get d row col)"
  by (auto simp add: dd_get_def split: option.splits if_splits)

lemma row_list_values:
  "fst (row_list cols row) = map (\<lambda>col. fst (dd_get (PStr []) row col)) cols"
proof (induction cols arbitrary: row)
  case Nil
  show ?case by simp
next
  case (Cons c cols)
  show ?case
    by (simp add: case_prod_beta Let_def Cons.IH dd_get_again)
qed

lemma to_list_values:
  "fst (to_list t)
     = map (\<lambda>row. map (\<lambda>col. fst (dd_get (PStr []) row col)) (columns t)) (finished_rows t)"
  by (simp add: to_list_def Let_def row_list_values comp_def)

lemma next_row_finished_rows:
  "values_buf t \<noteq> [] \<Longrightarrow> finished_rows (next_row True t) = finished_rows t @ [values_buf t]"
  by (simp add: next_row_def Let_def)

lemma get_value_values:
  "values_buf (snd (get_value col t))
     = (if map_of (values_buf t) col = None then values_buf t @ [(col, PStr [])]
        else values_buf t)"
  by (simp add: get_value_def dd_get_def split: option.splits)

lemma row_content_values:
  "\<exists>extra. values_buf (snd (row_content cols t)) = values_buf t @ extra
     \<and> (\<forall>(c, v) \<in> set extra. v = PStr [] \<and> c \<in> set cols \<and> c \<notin> fst ` set (values_buf t))"
proof (induction cols arbitrary: t)
  case Nil
  show ?case by simp
next
  case (Cons col cols)
  let ?t3 = "snd (get_color col (snd (get_width col (snd (get_value col t)))))"
  have step: "snd (row_content (col # cols) t) = snd (row_content cols ?t3)"
    by (simp add: case_prod_beta Let_def)
  have v3: "values_buf ?t3 = values_buf (snd (get_value col t))" by simp
  from Cons.IH [of ?t3] obtain extra where
    e: "values_buf (snd (row_content cols ?t3)) = values_buf ?t3 @ extra"
    and p: "\<forall>(c, v) \<in> set extra. v = PStr [] \<and> c \<in> set cols \<and> c \<notin> fst ` set (values_buf ?t3)"
    by blast
  show ?case
  proof (cases "map_of (values_buf t) col = None")
    case True
    then have n: "col \<notin> fst ` set (values_buf t)" by (simp add: map_of_eq_None_iff)
    have "values_buf (snd (row_content (col # cols) t))
            = values_buf t @ ((col, PStr []) # extra)"
      using e True by (simp add: step v3 get_value_values del: row_content.simps)
    moreover have "\<forall>(c, v) \<in> set ((col, PStr []) # extra).
                      v = PStr [] \<and> c \<in> set (col # cols) \<and> c \<notin> fst ` set (values_buf t)"
      using p n True by (auto simp add: v3 get_value_values)
    ultimately show ?thesis by blast
  next
    case False
    have "values_buf (snd (row_content (col # cols) t)) = values_buf t @ extra"
      using e False by (simp add: step v3 get_value_values del: row_content.simps)
    moreover have "\<forall>(c, v) \<in> set extra.
                      v = PStr [] \<and> c \<in> set (col # cols) \<and> c \<notin> fst ` set (values_buf t)"
      using p False by (auto simp add: v3 get_value_values)
    ultimately show ?thesis by blast
  qed
qed

lemma print_row_values:
  "values_buf t \<noteq> [] \<Longrightarrow>
     \<exists>extra. values_buf (print_row t) = values_buf t @ extra
       \<and> (\<forall>(c, v) \<in> set extra.
             v = PStr [] \<and> c \<in> set (columns t) \<and> c \<notin> fst ` set (values_buf t))"
proof -
  assume ne: "values_buf t \<noteq> []"
  let ?t1 = "if \<not> header_printed t then print_header t else t"
  let ?t3 = "print_out [carriage_return] (?t1\<lparr>needs_line_ending := True\<rparr>)"
  have a: "values_buf ?t3 = values_buf t" "columns ?t3 = columns t" by simp_all
  have "values_buf (print_row t) = values_buf (snd (row_content (columns ?t3) ?t3))"
    using ne by (simp add: print_row_def Let_def case_prod_beta)
  with row_content_values [of "columns ?t3" ?t3] show ?thesis
    by (simp only: a)
qed

lemmas run_defs =
  init_def get_width_def get_color_def get_value_def dd_get_def print_header_def
  print_top_bar_def print_center_bar_def print_bottom_bar_def bar_def print_out_def
  print_row_def next_row_def close_def Let_def

lemma redraw_table:
  "columns (snd (snd (snd (snd (redraw fmt clk idx len g k t))))) = columns t"
  "progress_bar_fps (snd (snd (snd (snd (redraw fmt clk idx len g k t))))) = progress_bar_fps t"
  by (simp_all add: redraw_def Let_def case_prod_beta split: sum.splits option.splits)

lemma call_loop_columns:
  "\<forall>x u. columns (body x u) = columns u \<Longrightarrow>
     columns (final_table (call_loop fmt clk body len idx xs g k t)) = columns t"
proof (induction xs arbitrary: idx g k t)
  case Nil
  show ?case by simp
next
  case (Cons x xs)
  show ?case
    using Cons.prems
    by (simp add: Let_def case_prod_beta Cons.IH [OF Cons.prems] redraw_table
             split: sum.splits option.splits)
qed

lemma call_columns:
  "\<forall>x u. columns (body x u) = columns u \<Longrightarrow>
     columns (final_table (call fmt clk body iterator k t)) = columns t"
  by (cases iterator) (simp_all add: call_def Let_def call_loop_columns)

lemma add_column_columns:
  "columns (snd (add_column name width color t))
     = (if header_printed t then columns t else columns t @ [name])"
  by (simp add: add_column_def Let_def split: option.splits)

lemma exec_op_columns:
  "declares_fresh (x # xs) t \<Longrightarrow> distinct (columns t) \<Longrightarrow> distinct (columns (exec_op x t))"
  by (cases x) (simp_all add: add_column_columns call_columns)

lemma declares_fresh_tail:
  "declares_fresh (x # xs) t \<Longrightarrow> declares_fresh xs (exec_op x t)"
  by (cases x) simp_all

lemma exec_ops_distinct:
  "distinct (columns t) \<Longrightarrow> declares_fresh xs t \<Longrightarrow> distinct (columns (exec_ops xs t))"
proof (induction xs arbitrary: t)
  case Nil
  then show ?case by simp
next
  case (Cons x xs)
  from Cons.prems have "distinct (columns (exec_op x t))" by (simp add: exec_op_columns)
  moreover from Cons.prems have "declares_fresh xs (exec_op x t)" by (simp add: declares_fresh_tail)
  ultimately show ?case by (simp add: Cons.IH)
qed








section \<open>Cell writes and row advance\<close>

text \<open>
  Claim C3. For every table and every key that is not in \<open>columns\<close>, the cell write
  \<^verbatim>\<open>table[key] = value\<close> raises AssertionError and the table after the failed call is
  the table before it: in particular the row buffer and the row history are unchanged.
\<close>

theorem setitem_unknown_column_fails:
  "key \<notin> set (columns t) \<Longrightarrow>
     fst (setitem key v t) = Some AssertionError
   \<and> snd (setitem key v t) = t
   \<and> values_buf (snd (setitem key v t)) = values_buf t
   \<and> finished_rows (snd (setitem key v t)) = finished_rows t"
  by (simp add: setitem_def)

theorem setitem_unknown_column_fails_witness:
  "''unknown'' \<notin> set (columns (init [''epoch'', ''loss''] 8 10 []))
   \<and> fst (setitem ''unknown'' (PInt 1) (init [''epoch'', ''loss''] 8 10 [])) = Some AssertionError
   \<and> snd (setitem ''unknown'' (PInt 1) (init [''epoch'', ''loss''] 8 10 []))
       = init [''epoch'', ''loss''] 8 10 []"
proof -
  have h: "''unknown'' \<notin> set (columns (init [''epoch'', ''loss''] 8 10 []))"
    by (simp add: init_def)
  from setitem_unknown_column_fails [OF h, of "PInt 1"] h show ?thesis by simp
qed

text \<open>
  Claim C5. \<^verbatim>\<open>next_row(save=True)\<close> appends the row buffer to the history and adds one
  to the row counter exactly when the buffer is not empty, and empties the buffer in
  every case (also with \<^verbatim>\<open>save=False\<close>); a second \<^verbatim>\<open>next_row(save=True)\<close> right after
  the first changes neither the history nor the counter.
\<close>

theorem next_row_saves_iff_nonempty:
  "finished_rows (next_row True t)
     = (if values_buf t \<noteq> [] then finished_rows t @ [values_buf t] else finished_rows t)
   \<and> num_rows (next_row True t)
     = (if values_buf t \<noteq> [] then num_rows t + 1 else num_rows t)
   \<and> values_buf (next_row True t) = []
   \<and> values_buf (next_row False t) = []
   \<and> finished_rows (next_row True (next_row True t)) = finished_rows (next_row True t)
   \<and> num_rows (next_row True (next_row True t)) = num_rows (next_row True t)"
  by (simp add: next_row_def Let_def)

theorem next_row_saves_iff_nonempty_witness:
  "finished_rows (next_row True ((init [''a''] 8 10 [])\<lparr>values_buf := [(''a'', PInt 1)]\<rparr>))
     = [[(''a'', PInt 1)]]
   \<and> num_rows (next_row True ((init [''a''] 8 10 [])\<lparr>values_buf := [(''a'', PInt 1)]\<rparr>)) = 1
   \<and> finished_rows (next_row True (next_row True
        ((init [''a''] 8 10 [])\<lparr>values_buf := [(''a'', PInt 1)]\<rparr>))) = [[(''a'', PInt 1)]]
   \<and> finished_rows (next_row True (init [''a''] 8 10 [])) = []
   \<and> num_rows (next_row True (init [''a''] 8 10 [])) = 0"
  using next_row_saves_iff_nonempty [of "(init [''a''] 8 10 [])\<lparr>values_buf := [(''a'', PInt 1)]\<rparr>"]
        next_row_saves_iff_nonempty [of "init [''a''] 8 10 []"]
  by (simp add: init_def)

section \<open>Declaring columns\<close>

text \<open>
  Claim C1. The claim is that the width of every declared column is at least the length
  of its name, also for a column declared through the constructor's \<^verbatim>\<open>columns\<close>
  argument. The constructor stores the names and no width, so the width of such a
  column is the default width whatever the name: with the default 8 the 19-character
  name below has width 8, before and after the header is printed.
\<close>

theorem constructor_column_narrower_than_name:
  "columns (init [''validation_accuracy''] 8 10 []) = [''validation_accuracy'']
   \<and> fst (get_width ''validation_accuracy'' (init [''validation_accuracy''] 8 10 [])) = 8
   \<and> map_of (widths (print_header (init [''validation_accuracy''] 8 10 [])))
        ''validation_accuracy'' = Some 8
   \<and> int (length ''validation_accuracy'') = 19"
  by (simp add: init_def get_width_def get_color_def dd_get_def print_header_def
        print_top_bar_def print_center_bar_def bar_def print_out_def Let_def)



section \<open>The progress bar\<close>




section \<open>Row history and export\<close>

text \<open>
  Claim C6. \<^verbatim>\<open>to_list()\<close> returns one row per finished row, in the order of
  \<open>finished_rows\<close>; each returned row has one entry per entry of \<open>columns\<close>, in that
  order, the entry for a column being the value the finished row holds for it (the
  empty string when it holds none). \<^verbatim>\<open>next_row(save=True)\<close> on a non-empty buffer puts
  the new row last, so the order of the rows is the order in which they were finished.
\<close>

theorem to_list_row_and_column_order:
  "fst (to_list t)
     = map (\<lambda>row. map (\<lambda>col. fst (dd_get (PStr []) row col)) (columns t)) (finished_rows t)
   \<and> length (fst (to_list t)) = length (finished_rows t)
   \<and> (\<forall>r \<in> set (fst (to_list t)). length r = length (columns t))
   \<and> (values_buf t \<noteq> [] \<longrightarrow>
        fst (to_list (next_row True t))
          = fst (to_list t) @ [map (\<lambda>col. fst (dd_get (PStr []) (values_buf t) col)) (columns t)])"
  by (auto simp add: to_list_values next_row_finished_rows)

theorem to_list_row_and_column_order_witness:
  "values_buf ((init [''epoch'', ''loss''] 8 10 [])
      \<lparr>finished_rows := [[(''loss'', PStr ''a''), (''epoch'', PInt 1)]],
       values_buf := [(''epoch'', PInt 2)]\<rparr>) \<noteq> []
   \<and> fst (to_list (next_row True ((init [''epoch'', ''loss''] 8 10 [])
      \<lparr>finished_rows := [[(''loss'', PStr ''a''), (''epoch'', PInt 1)]],
       values_buf := [(''epoch'', PInt 2)]\<rparr>)))
     = [[PInt 1, PStr ''a''], [PInt 2, PStr []]]"
  using to_list_row_and_column_order
          [of "(init [''epoch'', ''loss''] 8 10 [])
               \<lparr>finished_rows := [[(''loss'', PStr ''a''), (''epoch'', PInt 1)]],
                values_buf := [(''epoch'', PInt 2)]\<rparr>"]
  by (simp add: init_def dd_get_def)

text \<open>
  Claim C10. For a non-empty row buffer, \<^verbatim>\<open>close()\<close> appends the buffer to the history
  as one finished row and adds one to the row counter; afterwards the buffer is empty
  and \<open>header_printed\<close> is cleared. The appended row is the buffer as the final redraw
  left it: the entries it had, followed by an empty string for columns that had none.
\<close>

theorem close_saves_pending_row:
  "values_buf t \<noteq> [] \<Longrightarrow>
     (\<exists>extra. finished_rows (close t) = finished_rows t @ [values_buf t @ extra]
        \<and> (\<forall>(c, v) \<in> set extra.
              v = PStr [] \<and> c \<in> set (columns t) \<and> c \<notin> fst ` set (values_buf t)))
   \<and> num_rows (close t) = num_rows t + 1
   \<and> values_buf (close t) = []
   \<and> \<not> header_printed (close t)"
proof -
  assume ne: "values_buf t \<noteq> []"
  from print_row_values [OF ne] obtain extra where
    e: "values_buf (print_row t) = values_buf t @ extra"
    and p: "\<forall>(c, v) \<in> set extra.
              v = PStr [] \<and> c \<in> set (columns t) \<and> c \<notin> fst ` set (values_buf t)"
    by blast
  have ne': "values_buf (print_row t) \<noteq> []" using e ne by simp
  have "finished_rows (close t) = finished_rows t @ [values_buf t @ extra]"
    using ne' e by (simp add: close_def print_bottom_bar_def next_row_def Let_def)
  moreover have "num_rows (close t) = num_rows t + 1"
    using ne' by (simp add: close_def print_bottom_bar_def next_row_def Let_def)
  ultimately show ?thesis using p by auto
qed

theorem close_saves_pending_row_witness:
  "values_buf ((init [''epoch'', ''loss''] 8 10 [])\<lparr>values_buf := [(''epoch'', PInt 1)]\<rparr>) \<noteq> []
   \<and> finished_rows (close ((init [''epoch'', ''loss''] 8 10 [])\<lparr>values_buf := [(''epoch'', PInt 1)]\<rparr>))
       = [[(''epoch'', PInt 1), (''loss'', PStr [])]]
   \<and> num_rows (close ((init [''epoch'', ''loss''] 8 10 [])\<lparr>values_buf := [(''epoch'', PInt 1)]\<rparr>)) = 1
   \<and> values_buf (close ((init [''epoch'', ''loss''] 8 10 [])\<lparr>values_buf := [(''epoch'', PInt 1)]\<rparr>)) = []
   \<and> \<not> header_printed (close ((init [''epoch'', ''loss''] 8 10 [])\<lparr>values_buf := [(''epoch'', PInt 1)]\<rparr>))"
proof -
  let ?t = "(init [''epoch'', ''loss''] 8 10 [])\<lparr>values_buf := [(''epoch'', PInt 1)]\<rparr>"
  have ne: "values_buf ?t \<noteq> []" by simp
  have rows: "finished_rows (close ?t) = [[(''epoch'', PInt 1), (''loss'', PStr [])]]"
    by (simp add: run_defs)
  have n0: "num_rows ?t = 0" by (simp add: init_def)
  from close_saves_pending_row [OF ne] ne rows n0 show ?thesis by simp
qed

section \<open>Uniqueness of column names\<close>

text \<open>
  Claim C8, amended. When the names given to the constructor are pairwise distinct, no
  \<^verbatim>\<open>add_column\<close> names a column that is declared at the time of the call, and no loop
  body changes the list of columns, then in every state reached by a sequence of
  operations no two entries of \<open>columns\<close> are the same name.
\<close>

theorem column_names_unique_when_declared_once:
  "distinct cols \<Longrightarrow> declares_fresh xs (init cols default_column_width fps formatting) \<Longrightarrow>
     distinct (columns (exec_ops xs (init cols default_column_width fps formatting)))"
  by (rule exec_ops_distinct) (simp_all add: init_def)

theorem column_names_unique_when_declared_once_witness:
  "distinct [''epoch'', ''loss'']
   \<and> declares_fresh [AddColumn ''accuracy'' None None, SetItem ''epoch'' (PInt 1), NextRow True,
        Close, AddColumn ''time'' (Some 4) None] (init [''epoch'', ''loss''] 8 10 [])
   \<and> distinct (columns (exec_ops [AddColumn ''accuracy'' None None, SetItem ''epoch'' (PInt 1),
        NextRow True, Close, AddColumn ''time'' (Some 4) None] (init [''epoch'', ''loss''] 8 10 [])))"
proof -
  have d: "distinct [''epoch'', ''loss'']" by simp
  have f: "declares_fresh [AddColumn ''accuracy'' None None, SetItem ''epoch'' (PInt 1), NextRow True,
        Close, AddColumn ''time'' (Some 4) None] (init [''epoch'', ''loss''] 8 10 [])"
    by (simp add: add_column_columns) (simp add: init_def)
  from column_names_unique_when_declared_once [OF d f] d f show ?thesis by blast
qed

text \<open>
  Claim C8 as stated fails: neither the constructor nor \<^verbatim>\<open>add_column\<close> looks for the
  name among the declared columns, so declaring \<open>a\<close> twice gives the list \<open>[a, a]\<close>.
\<close>

theorem duplicate_column_names_accepted:
  "columns (exec_ops [AddColumn ''a'' None None, AddColumn ''a'' None None] (init [] 8 10 []))
     = [''a'', ''a'']
   \<and> \<not> distinct (columns (exec_ops [AddColumn ''a'' None None, AddColumn ''a'' None None]
                              (init [] 8 10 [])))
   \<and> \<not> distinct (columns (init [''a'', ''a''] 8 10 []))"
  by (simp add: add_column_columns add_column_def init_def)

section \<open>Instrumented iteration\<close>






end
